theory Spec2Isabelle
  imports Main "HOL-Library.Word" "HOL-Library.Sublist"
begin

section \<open>The TPS Client API example program: \<^verbatim>\<open>tps_client_c/c_example/c_example.c\<close>\<close>

text \<open>
  The program discovers the ROT13 service, opens a session with it, sends one fixed CBOR
  message and prints the answer. Its own functions are \<^verbatim>\<open>DoServiceDiscovery\<close>,
  \<^verbatim>\<open>PrintMessage\<close>, \<^verbatim>\<open>PrepareMessage\<close> and \<^verbatim>\<open>main\<close>; the functions named
  \<^verbatim>\<open>TPSC_...\<close> belong to the client library, of which the sources hold no line.

  Bytes (\<^verbatim>\<open>uint8_t\<close>) are 8-bit words and status codes (\<^verbatim>\<open>uint32_t\<close>) are 32-bit words.
  A \<^verbatim>\<open>size_t\<close> is a natural number: the program compares sizes and never calculates
  with them, so no size can wrap around.
\<close>

type_synonym u8 = "8 word"
type_synonym u32 = "32 word"

subsection \<open>The types the program uses from \<^verbatim>\<open>tpsc_client_api.h\<close>\<close>

text \<open>
  The header is not among the sources. The types are written the way the program's
  designated initialisers and member accesses use them. The three parts of a version
  are natural numbers.
\<close>

record TPSC_UUID =
  bytes :: "u8 list"

record TPSC_ServiceVersion =
  major_version :: nat
  minor_version :: nat
  patch_version :: nat

text \<open>A bound is a tag with the version in the union member of the same name.\<close>

datatype TPSC_ServiceBound =
    Inclusive TPSC_ServiceVersion
  | Exclusive TPSC_ServiceVersion

record TPSC_ServiceRange =
  lowest_acceptable_version :: TPSC_ServiceBound
  first_excluded_version :: TPSC_ServiceBound
  last_excluded_version :: TPSC_ServiceBound
  highest_acceptable_version :: TPSC_ServiceBound

record TPSC_ServiceSelector =
  service_id :: TPSC_UUID
  secure_component_instance :: TPSC_UUID
  secure_component_type :: TPSC_UUID
  service_version_range :: TPSC_ServiceRange

text \<open>
  Modelled from the spec: the declaration of \<^verbatim>\<open>TPSC_ServiceIdentifier\<close> is missing. The
  program reads its member \<^verbatim>\<open>service_instance\<close>; section 3 of the specification gives a
  service identifier the two members service id and service instance. The second one is
  called \<open>identified_service\<close> here, the selector having a member \<open>service_id\<close> already.
\<close>

record TPSC_ServiceIdentifier =
  identified_service :: TPSC_UUID
  service_instance :: TPSC_UUID

text \<open>
  Modelled from the spec: the macro \<^verbatim>\<open>TPSC_UUID_NIL\<close> is missing. Section 9 of the
  specification calls it the sentinel nil UUID, the all-zero UUID.
\<close>

definition TPSC_UUID_NIL :: TPSC_UUID where
  "TPSC_UUID_NIL = \<lparr>bytes = replicate 16 0\<rparr>"

text \<open>
  Modelled from the spec: the macro \<^verbatim>\<open>TPSC_SUCCESS\<close> is missing. By section 6 of the
  specification the status codes are integers of which 0, success, is the only one that
  is not an error.
\<close>

definition TPSC_SUCCESS :: u32 where
  "TPSC_SUCCESS = 0"

text \<open>
  Modelled from the spec: the macros \<^verbatim>\<open>TRUE\<close> and \<^verbatim>\<open>FALSE\<close> come from a header that is
  missing, and the specification does not give their values. \<^verbatim>\<open>PrepareMessage\<close> returns
  them as an \<^verbatim>\<open>int\<close>, to tell the write of section 4.4 of the specification that succeeds
  from the one that finds the buffer too small; they are taken to be the truth values
  of C, 1 and 0. The properties use no more of them than that they differ.
\<close>

definition TRUE :: int where
  "TRUE = 1"

definition FALSE :: int where
  "FALSE = 0"

subsection \<open>The macros of the program\<close>

definition SERVICE_ID_GPP_ROT13 :: TPSC_UUID where
  "SERVICE_ID_GPP_ROT13 =
     \<lparr>bytes = [0x87, 0xba, 0xe7, 0x13, 0xb0, 0x8f, 0x5e, 0x28,
                0xb9, 0xee, 0x4a, 0xa6, 0xe2, 0x02, 0x44, 0x0e]\<rparr>"

definition TRANSACTION_BUFFER_SIZE :: nat where
  "TRANSACTION_BUFFER_SIZE = 256"

definition INPUT_MSG :: "u8 list" where
  "INPUT_MSG =
     [0xCA, 0xA1, 0x01, 0x70,
      0x54, 0x68, 0x69, 0x73, 0x67, 0x6F, 0x65, 0x73, 0x74,
      0x6F, 0x65, 0x6C, 0x65, 0x76, 0x65, 0x6E]"

definition EXPECT_MSG :: "u8 list" where
  "EXPECT_MSG =
     [0xCA, 0xA1, 0x01, 0x70,
      0x47, 0x75, 0x76, 0x66, 0x74, 0x62, 0x72, 0x66, 0x67,
      0x62, 0x72, 0x79, 0x72, 0x69, 0x72, 0x61]"

subsection \<open>The selector of \<^verbatim>\<open>DoServiceDiscovery\<close>\<close>

definition DoServiceDiscovery_selector :: TPSC_ServiceSelector where
  "DoServiceDiscovery_selector =
     \<lparr>service_id = SERVICE_ID_GPP_ROT13,
      secure_component_instance = TPSC_UUID_NIL,
      secure_component_type = TPSC_UUID_NIL,
      service_version_range =
        \<lparr>lowest_acceptable_version =
           Inclusive \<lparr>major_version = 0, minor_version = 0, patch_version = 1\<rparr>,
         first_excluded_version =
           Inclusive \<lparr>major_version = 1, minor_version = 1, patch_version = 1\<rparr>,
         last_excluded_version =
           Exclusive \<lparr>major_version = 1, minor_version = 2, patch_version = 0\<rparr>,
         highest_acceptable_version =
           Exclusive \<lparr>major_version = 2, minor_version = 0, patch_version = 0\<rparr>\<rparr>\<rparr>"

subsection \<open>Version ranges, as the specification reads them\<close>

text \<open>
  Modelled from the spec: the library function that matches a service's version against
  a range is missing. Section 4.1 of the specification orders versions lexicographically
  on (major, minor, patch).
\<close>

definition version_less :: "TPSC_ServiceVersion \<Rightarrow> TPSC_ServiceVersion \<Rightarrow> bool" where
  "version_less a b =
     (major_version a < major_version b
      \<or> (major_version a = major_version b
          \<and> (minor_version a < minor_version b
              \<or> (minor_version a = minor_version b \<and> patch_version a < patch_version b))))"

definition version_le :: "TPSC_ServiceVersion \<Rightarrow> TPSC_ServiceVersion \<Rightarrow> bool" where
  "version_le a b = (version_less a b \<or> a = b)"

text \<open>
  Modelled from the spec: the edge policy of section 4.1. An inclusive bound includes
  its own triple in the interval it delimits and an exclusive bound excludes it, whether
  the bound is the lower or the upper end.
\<close>

fun from_bound :: "TPSC_ServiceBound \<Rightarrow> TPSC_ServiceVersion \<Rightarrow> bool" where
  "from_bound (Inclusive b) v = version_le b v"
| "from_bound (Exclusive b) v = version_less b v"

fun upto_bound :: "TPSC_ServiceBound \<Rightarrow> TPSC_ServiceVersion \<Rightarrow> bool" where
  "upto_bound (Inclusive b) v = version_le v b"
| "upto_bound (Exclusive b) v = version_less v b"

text \<open>
  Modelled from the spec: the operation \<open>accepts\<close> of section 4.1. A version is accepted
  when it lies between the lowest and the highest acceptable version and does not lie
  between the first and the last excluded version, each end taken by its tag.
\<close>

definition accepts :: "TPSC_ServiceRange \<Rightarrow> TPSC_ServiceVersion \<Rightarrow> bool" where
  "accepts r v =
     ((from_bound (lowest_acceptable_version r) v \<and> upto_bound (highest_acceptable_version r) v)
      \<and> \<not> (from_bound (first_excluded_version r) v \<and> upto_bound (last_excluded_version r) v))"

subsection \<open>ROT13\<close>

text \<open>
  Modelled from the spec: the ROT13 service is missing; the specification names the
  transform and no more. It is the usual one: a letter of the Latin alphabet moves 13
  places on, round the alphabet and inside its case; every other byte stays.
\<close>

definition rot13 :: "u8 \<Rightarrow> u8" where
  "rot13 c =
     (if 0x41 \<le> c \<and> c \<le> 0x5A then (c - 0x41 + 13) mod 26 + 0x41
      else if 0x61 \<le> c \<and> c \<le> 0x7A then (c - 0x61 + 13) mod 26 + 0x61
      else c)"

subsection \<open>\<^verbatim>\<open>PrepareMessage\<close>\<close>

text \<open>
  A buffer is the list of the bytes it holds. \<^verbatim>\<open>memcpy\<close> of \<open>n\<close> bytes is undefined in C
  when either buffer has fewer than \<open>n\<close> bytes; the result \<open>None\<close> stands for that.
\<close>

definition memcpy :: "u8 list \<Rightarrow> u8 list \<Rightarrow> nat \<Rightarrow> u8 list option" where
  "memcpy dest src n =
     (if n \<le> length src \<and> n \<le> length dest then Some (take n src @ drop n dest) else None)"

text \<open>
  The result is the value returned together with the destination buffer as the call
  leaves it. Nothing else is in reach of the function: it is handed two byte pointers
  and two lengths, and no \<^verbatim>\<open>TPSC_MessageBuffer\<close>.
\<close>

definition PrepareMessage :: "u8 list \<Rightarrow> nat \<Rightarrow> u8 list \<Rightarrow> nat \<Rightarrow> (int \<times> u8 list) option" where
  "PrepareMessage src src_len dest dest_len =
     (if src_len \<le> dest_len then
        (case memcpy dest src src_len of
           None \<Rightarrow> None
         | Some dest' \<Rightarrow> Some (TRUE, dest'))
      else Some (FALSE, dest))"

subsection \<open>\<^verbatim>\<open>PrintMessage\<close>\<close>

text \<open>
  What the program writes to the standard output is a string. \<open>printf_x\<close> is the
  conversion \<^verbatim>\<open>%x\<close> of \<^verbatim>\<open>printf\<close>: an unsigned value in lower-case hexadecimal digits,
  with no leading zero. \<open>print_byte\<close> is the call \<^verbatim>\<open>printf("%x, ", msg[i])\<close>.
\<close>

definition newline :: string where
  "newline = [CHR 0x0A]"

definition hex_digit :: "nat \<Rightarrow> char" where
  "hex_digit d = ''0123456789abcdef'' ! d"

fun printf_x :: "nat \<Rightarrow> string" where
  "printf_x n = (if n < 16 then [hex_digit n] else printf_x (n div 16) @ [hex_digit (n mod 16)])"

declare printf_x.simps [simp del]

definition print_byte :: "u8 \<Rightarrow> string" where
  "print_byte b = printf_x (unat b) @ '', ''"

text \<open>
  The loop counter \<^verbatim>\<open>i\<close> is an \<^verbatim>\<open>int\<close> of 32 bits, compared with the \<^verbatim>\<open>size_t\<close> \<^verbatim>\<open>len\<close> of
  64 bits. It starts at 0 and grows, and as long as it does it is a natural number here
  and the comparison converts nothing. At \<^verbatim>\<open>INT_MAX\<close> the increment \<^verbatim>\<open>i++\<close> overflows. The
  C standard leaves that undefined; the machine wraps round to \<^verbatim>\<open>INT_MIN\<close>, and that is
  what is written out here. The test \<^verbatim>\<open>i < len\<close> converts \<^verbatim>\<open>INT_MIN\<close> to \<^verbatim>\<open>size_t\<close>, which
  gives \<open>2^64 - 2^31\<close>: the loop ends there, unless \<^verbatim>\<open>len\<close> is larger still and \<^verbatim>\<open>msg[i]\<close>
  is read at a negative index. That read, and the read of \<^verbatim>\<open>msg[i]\<close> behind the end of
  the buffer, have no defined result: they are \<open>None\<close>.
\<close>

definition INT_MAX :: nat where
  "INT_MAX = 2147483647"

definition INT_MIN_as_size_t :: nat where
  "INT_MIN_as_size_t = 18446744071562067968"

function PrintMessage_loop :: "u8 list \<Rightarrow> nat \<Rightarrow> nat \<Rightarrow> string \<Rightarrow> string option" where
  "PrintMessage_loop msg len i out =
     (if i < len then
        (if i < length msg then
           (let out1 = out @ print_byte (msg ! i);
                out2 = (if i mod 8 = 0 then out1 @ newline else out1)
            in if i < INT_MAX then PrintMessage_loop msg len (i + 1) out2
               else if INT_MIN_as_size_t < len then None
               else Some out2)
         else None)
      else Some out)"
  by pat_completeness auto
termination
  by (relation "measure (\<lambda>(msg, len, i, out). len - i)") auto

declare PrintMessage_loop.simps [simp del]

text \<open>The result is the text the call prints.\<close>

definition PrintMessage :: "string \<Rightarrow> u8 list \<Rightarrow> nat \<Rightarrow> string option" where
  "PrintMessage heading msg len =
     (case PrintMessage_loop msg len 0 (heading @ newline) of
        None \<Rightarrow> None
      | Some out \<Rightarrow> Some (out @ newline))"

text \<open>
  The layout the output has, written down on its own to compare the loop with: the
  heading, a line with the first byte alone, the bytes after it in groups of eight with
  a line break behind every full group, and the closing line break.
\<close>

definition print_bytes :: "u8 list \<Rightarrow> string" where
  "print_bytes bs = concat (map print_byte bs)"

function groups_of :: "nat \<Rightarrow> 'a list \<Rightarrow> 'a list list" where
  "groups_of n xs = (if n = 0 \<or> xs = [] then [] else take n xs # groups_of n (drop n xs))"
  by pat_completeness auto
termination
  by (relation "measure (\<lambda>(n, xs). length xs)") auto

declare groups_of.simps [simp del]

definition PrintMessage_layout :: "string \<Rightarrow> u8 list \<Rightarrow> string" where
  "PrintMessage_layout heading msg =
     heading @ newline
     @ print_bytes (take 1 msg) @ newline
     @ concat (map (\<lambda>g. print_bytes g @ (if length g = 8 then newline else []))
                 (groups_of 8 (drop 1 msg)))
     @ newline"

text \<open>The text the loop prints for the bytes \<open>bs\<close> when the first of them has index \<open>k\<close>.\<close>

fun print_from :: "nat \<Rightarrow> u8 list \<Rightarrow> string" where
  "print_from k [] = []"
| "print_from k (b # bs) =
     print_byte b @ (if k mod 8 = 0 then newline else []) @ print_from (Suc k) bs"

subsection \<open>Memory\<close>

text \<open>
  The blocks \<^verbatim>\<open>main\<close> allocates are kept in a heap, a list of blocks; a pointer is null or
  names a block. What a call of \<^verbatim>\<open>malloc\<close> does is an input of the run: it fails and
  returns the null pointer, leaving the heap as it is, or it gives a new block of the
  size asked for, with whatever bytes \<open>contents\<close> puts there.
\<close>

datatype ptr = NULL | Block nat

type_synonym heap = "u8 list list"

definition malloc :: "heap \<Rightarrow> nat \<Rightarrow> (nat \<Rightarrow> u8) option \<Rightarrow> ptr \<times> heap" where
  "malloc h n outcome =
     (case outcome of
        None \<Rightarrow> (NULL, h)
      | Some contents \<Rightarrow> (Block (length h), h @ [map contents [0..<n]]))"

fun deref :: "heap \<Rightarrow> ptr \<Rightarrow> u8 list option" where
  "deref h NULL = None"
| "deref h (Block k) = (if k < length h then Some (h ! k) else None)"

fun store :: "heap \<Rightarrow> ptr \<Rightarrow> u8 list \<Rightarrow> heap" where
  "store h NULL blk = h"
| "store h (Block k) blk = h[k := blk]"

subsection \<open>The client library\<close>

text \<open>
  \<^verbatim>\<open>TPSC_MessageBuffer\<close> has the members \<^verbatim>\<open>message\<close> and \<^verbatim>\<open>size\<close> that \<^verbatim>\<open>main\<close> uses;
  \<open>size\<close> being a constant of HOL, the member is \<open>size_mb\<close> here.
\<close>

record TPSC_MessageBuffer =
  message :: ptr
  size_mb :: nat

text \<open>
  Modelled from the spec: the macro \<^verbatim>\<open>TPSC_LOGIN_PUBLIC\<close> is missing. Section 4.3 of the
  specification opens a session with a login mode and gives no value for this one; 0 is
  taken, and no property depends on it.
\<close>

definition TPSC_LOGIN_PUBLIC :: u32 where
  "TPSC_LOGIN_PUBLIC = 0"

text \<open>
  The four library functions are parameters: a run of the program is relative to a
  library \<open>api\<close>, of which no more is assumed than the types below say. \<open>'w\<close> is whatever
  state the library and the secure world keep between calls; each function takes it and
  returns it. \<open>'s\<close> is what \<^verbatim>\<open>TPSC_OpenSession\<close> writes into the \<^verbatim>\<open>TPSC_Session\<close>.
  \<^item> \<^verbatim>\<open>TPSC_ServiceDiscovery\<close> takes the selector, the capacity \<^verbatim>\<open>*no_of_services\<close> and the
    array; it returns the status, the new \<^verbatim>\<open>*no_of_services\<close> and the array.
  \<^item> \<^verbatim>\<open>TPSC_OpenSession\<close> takes the service instance, the login mode and the connection
    data; it returns the status and the session.
  \<^item> \<^verbatim>\<open>TPSC_InitializeTransaction\<close> takes the address and the size of the block; it
    returns the status and the message buffer it has set up. It is taken to leave the
    block itself alone.
  \<^item> \<^verbatim>\<open>TPSC_ExecuteTransaction\<close> takes the heap, the session and the two message buffers;
    it returns the status, the receiving message buffer and the heap.
  An array of service identifiers is a function from the index to the element.
\<close>

record ('w, 's) TPSC_API =
  TPSC_ServiceDiscovery ::
    "'w \<Rightarrow> TPSC_ServiceSelector \<Rightarrow> nat \<Rightarrow> (nat \<Rightarrow> TPSC_ServiceIdentifier)
       \<Rightarrow> (u32 \<times> nat \<times> (nat \<Rightarrow> TPSC_ServiceIdentifier)) \<times> 'w"
  TPSC_OpenSession :: "'w \<Rightarrow> TPSC_UUID \<Rightarrow> u32 \<Rightarrow> ptr \<Rightarrow> (u32 \<times> 's) \<times> 'w"
  TPSC_InitializeTransaction :: "'w \<Rightarrow> ptr \<Rightarrow> nat \<Rightarrow> (u32 \<times> TPSC_MessageBuffer) \<times> 'w"
  TPSC_ExecuteTransaction ::
    "'w \<Rightarrow> heap \<Rightarrow> 's \<Rightarrow> TPSC_MessageBuffer \<Rightarrow> TPSC_MessageBuffer
       \<Rightarrow> (u32 \<times> TPSC_MessageBuffer \<times> heap) \<times> 'w"

subsection \<open>\<^verbatim>\<open>DoServiceDiscovery\<close>\<close>

text \<open>
  \<^verbatim>\<open>services_available\<close> is static: it starts with every byte zero and keeps its value
  from one call to the next, so the function takes it and returns it. The result is the
  status returned, the identifier written to \<^verbatim>\<open>*service_id\<close> and the array.
\<close>

definition zero_ServiceIdentifier :: TPSC_ServiceIdentifier where
  "zero_ServiceIdentifier =
     \<lparr>identified_service = \<lparr>bytes = replicate 16 0\<rparr>,
      service_instance = \<lparr>bytes = replicate 16 0\<rparr>\<rparr>"

definition services_available_initial :: "nat \<Rightarrow> TPSC_ServiceIdentifier" where
  "services_available_initial = (\<lambda>i. zero_ServiceIdentifier)"

definition DoServiceDiscovery ::
  "('w, 's) TPSC_API \<Rightarrow> 'w \<Rightarrow> (nat \<Rightarrow> TPSC_ServiceIdentifier)
     \<Rightarrow> (u32 \<times> TPSC_ServiceIdentifier \<times> (nat \<Rightarrow> TPSC_ServiceIdentifier)) \<times> 'w" where
  "DoServiceDiscovery api w services_available =
     (let selector = DoServiceDiscovery_selector;
          no_of_services = 3;
          ((retval, no_of_services', services_available'), w') =
             TPSC_ServiceDiscovery api w selector no_of_services services_available
      in ((retval, services_available' 0, services_available'), w'))"

subsection \<open>\<^verbatim>\<open>main\<close>\<close>

text \<open>
  A run of \<^verbatim>\<open>main\<close> leaves the text it has printed and the state of the library behind.
  The text is \<open>None\<close> when the behaviour of the run is undefined; the state is then the
  one the library was in when that happened. \<open>allocation k\<close> is what the call number \<open>k\<close> of
  \<^verbatim>\<open>malloc\<close> does.
\<close>

record 'w run =
  stdout :: "string option"
  world :: 'w

definition printf :: "string option \<Rightarrow> string option \<Rightarrow> string option" where
  "printf out text =
     (case out of
        None \<Rightarrow> None
      | Some a \<Rightarrow> (case text of None \<Rightarrow> None | Some b \<Rightarrow> Some (a @ b)))"

text \<open>
  \<^verbatim>\<open>PrepareMessage\<close> and \<^verbatim>\<open>PrintMessage\<close> on a pointer: the bytes are those of the block it
  names. A pointer that names no block, the null pointer for one, has no byte to read
  or write.
\<close>

definition block_at :: "heap \<Rightarrow> ptr \<Rightarrow> u8 list" where
  "block_at h p = (case deref h p of None \<Rightarrow> [] | Some blk \<Rightarrow> blk)"

definition main ::
  "('w, 's) TPSC_API \<Rightarrow> 'w \<Rightarrow> (nat \<Rightarrow> (nat \<Rightarrow> u8) option) \<Rightarrow> 'w run" where
  "main api w0 allocation =
     (let send_msg = INPUT_MSG;
          out0 = PrintMessage ''Input Message'' send_msg 20;
          ((r1, svc_id, services_available), w1) =
             DoServiceDiscovery api w0 services_available_initial
      in if r1 = TPSC_SUCCESS then
           (let ((r2, session), w2) =
                   TPSC_OpenSession api w1 (service_instance svc_id) TPSC_LOGIN_PUBLIC NULL
            in if r2 = TPSC_SUCCESS then
                 (let (send_buffer, h1) = malloc [] TRANSACTION_BUFFER_SIZE (allocation 0);
                      (recv_buffer, h2) = malloc h1 TRANSACTION_BUFFER_SIZE (allocation 1);
                      ((r3, send_buf), w3) =
                         TPSC_InitializeTransaction api w2 send_buffer TRANSACTION_BUFFER_SIZE
                  in if r3 = TPSC_SUCCESS then
                       (let ((r4, recv_buf), w4) =
                               TPSC_InitializeTransaction api w3 recv_buffer TRANSACTION_BUFFER_SIZE
                        in if r4 = TPSC_SUCCESS then
                             (case PrepareMessage send_msg 20 (block_at h2 send_buffer)
                                     TRANSACTION_BUFFER_SIZE of
                                None \<Rightarrow> \<lparr>stdout = None, world = w4\<rparr>
                              | Some (r5, dest) \<Rightarrow>
                                 (let h3 = store h2 send_buffer dest;
                                      send_buf' = send_buf\<lparr>size_mb := 20\<rparr>;
                                      ((r6, recv_buf', h4), w5) =
                                         TPSC_ExecuteTransaction api w4 h3 session send_buf' recv_buf
                                  in if r6 = TPSC_SUCCESS then
                                       \<lparr>stdout = printf out0
                                          (PrintMessage ''Received Message''
                                             (block_at h4 (message recv_buf')) (size_mb recv_buf')),
                                        world = w5\<rparr>
                                     else
                                       \<lparr>stdout = printf out0 (Some ''Transaction failed!''),
                                        world = w5\<rparr>))
                           else \<lparr>stdout = out0, world = w4\<rparr>)
                     else \<lparr>stdout = out0, world = w3\<rparr>)
               else \<lparr>stdout = out0, world = w2\<rparr>)
         else \<lparr>stdout = printf out0 (Some ''Service discovery failed''), world = w1\<rparr>)"

subsection \<open>The calls of a run\<close>

text \<open>
  Which library functions a run calls, in which order and with which arguments, is read
  off the library itself. \<open>recording api\<close> is the library \<open>api\<close> with a log added to its
  state: each of its four functions does what the function of \<open>api\<close> does and writes the
  call at the end of the log, with its arguments and the status it returned (for
  \<^verbatim>\<open>TPSC_InitializeTransaction\<close> the message buffer it returned as well, for
  \<^verbatim>\<open>TPSC_ExecuteTransaction\<close> the heap it was given). \<^verbatim>\<open>main\<close> cannot tell the two
  libraries apart, and cannot write to the log but by calling. The calls of a run are
  the log that the run with \<open>recording api\<close> leaves behind.
\<close>

datatype api_call =
    ServiceDiscovery_call TPSC_ServiceSelector nat u32
  | OpenSession_call TPSC_UUID u32 ptr u32
  | InitializeTransaction_call ptr nat u32 TPSC_MessageBuffer
  | ExecuteTransaction_call heap TPSC_MessageBuffer TPSC_MessageBuffer u32

definition recording :: "('w, 's) TPSC_API \<Rightarrow> ('w \<times> api_call list, 's) TPSC_API" where
  "recording api =
     \<lparr>TPSC_ServiceDiscovery =
        (\<lambda>(w, log) selector n available.
           (let (result, w') = TPSC_ServiceDiscovery api w selector n available
            in (result, (w', log @ [ServiceDiscovery_call selector n (fst result)])))),
      TPSC_OpenSession =
        (\<lambda>(w, log) inst login conn.
           (let (result, w') = TPSC_OpenSession api w inst login conn
            in (result, (w', log @ [OpenSession_call inst login conn (fst result)])))),
      TPSC_InitializeTransaction =
        (\<lambda>(w, log) p n.
           (let (result, w') = TPSC_InitializeTransaction api w p n
            in (result,
                (w', log @ [InitializeTransaction_call p n (fst result) (snd result)])))),
      TPSC_ExecuteTransaction =
        (\<lambda>(w, log) h session send_buf recv_buf.
           (let (result, w') = TPSC_ExecuteTransaction api w h session send_buf recv_buf
            in (result,
                (w', log @ [ExecuteTransaction_call h send_buf recv_buf (fst result)]))))\<rparr>"

definition calls_of ::
  "('w, 's) TPSC_API \<Rightarrow> 'w \<Rightarrow> (nat \<Rightarrow> (nat \<Rightarrow> u8) option) \<Rightarrow> api_call list" where
  "calls_of api w allocation = snd (world (main (recording api) (w, []) allocation))"

datatype call_kind = Discovery | Open_session | Initialize | Execute

fun kind :: "api_call \<Rightarrow> call_kind" where
  "kind (ServiceDiscovery_call selector n r) = Discovery"
| "kind (OpenSession_call inst login conn r) = Open_session"
| "kind (InitializeTransaction_call p n r mb) = Initialize"
| "kind (ExecuteTransaction_call h sb rb r) = Execute"

text \<open>A call has succeeded when the function returned \<^verbatim>\<open>TPSC_SUCCESS\<close>.\<close>

fun succeeded :: "api_call \<Rightarrow> bool" where
  "succeeded (ServiceDiscovery_call selector n r) = (r = TPSC_SUCCESS)"
| "succeeded (OpenSession_call inst login conn r) = (r = TPSC_SUCCESS)"
| "succeeded (InitializeTransaction_call p n r mb) = (r = TPSC_SUCCESS)"
| "succeeded (ExecuteTransaction_call h sb rb r) = (r = TPSC_SUCCESS)"

subsection \<open>A library to run the program with\<close>

text \<open>
  An example of a library, for runs on concrete inputs. It keeps no state. Discovery
  finds one service and writes it to the head of the array; a session opens; a message
  buffer starts empty on the pointer it is given, whatever the pointer; a transaction
  answers the request with its four header bytes and the ROT13 of the bytes behind them.
\<close>

definition example_instance :: TPSC_UUID where
  "example_instance = \<lparr>bytes = replicate 16 1\<rparr>"

definition example_api :: "(unit, unit) TPSC_API" where
  "example_api =
     \<lparr>TPSC_ServiceDiscovery =
        (\<lambda>w selector n available.
           ((TPSC_SUCCESS, 1,
             available(0 := \<lparr>identified_service = service_id selector,
                              service_instance = example_instance\<rparr>)), w)),
      TPSC_OpenSession = (\<lambda>w inst login conn. ((TPSC_SUCCESS, ()), w)),
      TPSC_InitializeTransaction =
        (\<lambda>w p n. ((TPSC_SUCCESS, \<lparr>message = p, size_mb = 0\<rparr>), w)),
      TPSC_ExecuteTransaction =
        (\<lambda>w h s send recv.
           (let request = take (size_mb send) (block_at h (message send));
                response = take 4 request @ map rot13 (drop 4 request)
            in ((TPSC_SUCCESS,
                 recv\<lparr>size_mb := length response\<rparr>,
                 store h (message recv)
                   (response @ drop (length response) (block_at h (message recv)))), w)))\<rparr>"

text \<open>The same library with a function that fails with the status \<open>e\<close>.\<close>

definition no_service :: "u32 \<Rightarrow> (unit, unit) TPSC_API" where
  "no_service e =
     example_api\<lparr>TPSC_ServiceDiscovery := (\<lambda>w selector n available. ((e, 0, available), w))\<rparr>"

definition no_session :: "u32 \<Rightarrow> (unit, unit) TPSC_API" where
  "no_session e = example_api\<lparr>TPSC_OpenSession := (\<lambda>w inst login conn. ((e, ()), w))\<rparr>"

definition no_transaction_buffer :: "u32 \<Rightarrow> (unit, unit) TPSC_API" where
  "no_transaction_buffer e =
     example_api\<lparr>TPSC_InitializeTransaction :=
                   (\<lambda>w p n. ((e, \<lparr>message = NULL, size_mb = 0\<rparr>), w))\<rparr>"

text \<open>
  Two ways the allocations of a run can go: both succeed with blocks of zero bytes, or
  the first one, of the send buffer, fails.
\<close>

definition both_allocated :: "nat \<Rightarrow> (nat \<Rightarrow> u8) option" where
  "both_allocated k = Some (\<lambda>i. 0)"

definition no_send_buffer :: "nat \<Rightarrow> (nat \<Rightarrow> u8) option" where
  "no_send_buffer k = (if k = 0 then None else Some (\<lambda>i. 0))"

text \<open>A message of \<open>2^31 + 1\<close> bytes, one more than the counter of \<^verbatim>\<open>PrintMessage\<close> can count.\<close>

definition long_message :: "u8 list" where
  "long_message = replicate 2147483649 0"

section \<open>Properties\<close>

subsection \<open>The version range of the selector\<close>

text \<open>
  Claim C1. The selector that \<^verbatim>\<open>DoServiceDiscovery\<close> builds has the four bounds
  lowest acceptable = Inclusive (0,0,1), first excluded = Inclusive (1,1,1),
  last excluded = Exclusive (1,2,0) and highest acceptable = Exclusive (2,0,0).
  Read by \<open>accepts\<close>, this range rejects version 1.1.1, accepts 1.1.0, accepts 1.2.0
  and rejects 2.0.0.
\<close>

theorem selector_version_range:
  "service_version_range DoServiceDiscovery_selector =
     \<lparr>lowest_acceptable_version =
        Inclusive \<lparr>major_version = 0, minor_version = 0, patch_version = 1\<rparr>,
      first_excluded_version =
        Inclusive \<lparr>major_version = 1, minor_version = 1, patch_version = 1\<rparr>,
      last_excluded_version =
        Exclusive \<lparr>major_version = 1, minor_version = 2, patch_version = 0\<rparr>,
      highest_acceptable_version =
        Exclusive \<lparr>major_version = 2, minor_version = 0, patch_version = 0\<rparr>\<rparr>
   \<and> \<not> accepts (service_version_range DoServiceDiscovery_selector)
           \<lparr>major_version = 1, minor_version = 1, patch_version = 1\<rparr>
   \<and> accepts (service_version_range DoServiceDiscovery_selector)
         \<lparr>major_version = 1, minor_version = 1, patch_version = 0\<rparr>
   \<and> accepts (service_version_range DoServiceDiscovery_selector)
         \<lparr>major_version = 1, minor_version = 2, patch_version = 0\<rparr>
   \<and> \<not> accepts (service_version_range DoServiceDiscovery_selector)
           \<lparr>major_version = 2, minor_version = 0, patch_version = 0\<rparr>"
  by (simp add: DoServiceDiscovery_selector_def accepts_def version_le_def version_less_def)

subsection \<open>The two messages\<close>

text \<open>
  Claim C5. \<^verbatim>\<open>EXPECT_MSG\<close> starts with the four CBOR header bytes of \<^verbatim>\<open>INPUT_MSG\<close>,
  0xCA (tag 10), 0xA1 (map of 1), 0x01 and 0x70 (text string of 16 bytes), so that its
  first two bytes are 0xCA 0xA1. The 16 bytes that follow are the ROT13 transform of
  the 16 bytes that follow in \<^verbatim>\<open>INPUT_MSG\<close>: "Thisgoestoeleven" becomes
  "Guvftbrfgbryrira". In CBOR the first byte of a tag is 0xC0 plus its number, that of a
  map 0xA0 plus the number of its pairs and that of a text string 0x60 plus its length,
  each below 24.
\<close>

theorem expect_msg_is_rot13_of_input_msg:
  "take 4 INPUT_MSG = [0xCA, 0xA1, 0x01, 0x70]
   \<and> take 4 INPUT_MSG = [0xC0 + 10, 0xA0 + 1, 1, 0x60 + 16]
   \<and> take 4 EXPECT_MSG = take 4 INPUT_MSG
   \<and> take 2 EXPECT_MSG = [0xCA, 0xA1]
   \<and> length (drop 4 INPUT_MSG) = 16
   \<and> length (drop 4 EXPECT_MSG) = 16
   \<and> drop 4 INPUT_MSG = map of_char ''Thisgoestoeleven''
   \<and> drop 4 EXPECT_MSG = map of_char ''Guvftbrfgbryrira''
   \<and> drop 4 EXPECT_MSG = map rot13 (drop 4 INPUT_MSG)"
  by (simp add: INPUT_MSG_def EXPECT_MSG_def rot13_def)

subsection \<open>\<^verbatim>\<open>PrepareMessage\<close>\<close>

text \<open>
  Claim C3. When the source buffer has \<open>src_len\<close> bytes, the destination buffer has
  \<open>dest_len\<close> bytes and \<open>src_len \<le> dest_len\<close>, \<^verbatim>\<open>PrepareMessage\<close> returns \<^verbatim>\<open>TRUE\<close>, and
  afterwards the first \<open>src_len\<close> bytes of the destination are those of the source, byte
  for byte. The destination keeps its length and the bytes behind the copy.
\<close>

theorem PrepareMessage_copies:
  assumes "length src = src_len" and "length dest = dest_len" and "src_len \<le> dest_len"
  shows "\<exists>dest'. PrepareMessage src src_len dest dest_len = Some (TRUE, dest')
           \<and> take src_len dest' = take src_len src
           \<and> (\<forall>i. i < src_len \<longrightarrow> dest' ! i = src ! i)
           \<and> length dest' = dest_len
           \<and> drop src_len dest' = drop src_len dest"
proof -
  let ?d = "take src_len src @ drop src_len dest"
  from assms have run: "PrepareMessage src src_len dest dest_len = Some (TRUE, ?d)"
    by (simp add: PrepareMessage_def memcpy_def)
  from assms have front: "take src_len ?d = take src_len src"
    by simp
  from assms have each: "\<forall>i. i < src_len \<longrightarrow> ?d ! i = src ! i"
    by (simp add: nth_append)
  from assms have same_length: "length ?d = dest_len"
    by simp
  from assms have rest: "drop src_len ?d = drop src_len dest"
    by simp
  from run front each same_length rest show ?thesis
    by blast
qed

theorem PrepareMessage_copies_witness:
  "length [1, 2 :: u8] = 2 \<and> length [7, 8, 9 :: u8] = 3 \<and> (2 :: nat) \<le> 3
   \<and> PrepareMessage [1, 2] 2 [7, 8, 9] 3 = Some (TRUE, [1, 2, 9])"
proof -
  from PrepareMessage_copies [of "[1, 2]" 2 "[7, 8, 9]" 3]
  obtain dest' where run: "PrepareMessage [1, 2] 2 [7, 8, 9] 3 = Some (TRUE, dest')"
    and front: "take 2 dest' = [1, 2]" and rest: "drop 2 dest' = [9]"
    by auto
  have "dest' = take 2 dest' @ drop 2 dest'"
    by simp
  with front rest have "dest' = [1, 2, 9]"
    by simp
  with run show ?thesis
    by simp
qed

text \<open>
  Claim C4. When \<open>src_len > dest_len\<close>, \<^verbatim>\<open>PrepareMessage\<close> returns \<^verbatim>\<open>FALSE\<close>, which is not
  \<^verbatim>\<open>TRUE\<close>, and the destination buffer is the one it was given: no byte is copied and
  nothing is cut short. The value returned and the destination buffer are all the
  function can change, so a size kept beside the buffer stays as it is.
\<close>

theorem PrepareMessage_rejects:
  assumes "dest_len < src_len"
  shows "PrepareMessage src src_len dest dest_len = Some (FALSE, dest) \<and> FALSE \<noteq> TRUE"
  using assms by (simp add: PrepareMessage_def FALSE_def TRUE_def)

theorem PrepareMessage_rejects_witness:
  "(2 :: nat) < 3
   \<and> PrepareMessage [1, 2, 3] 3 [7, 8] 2 = Some (FALSE, [7, 8]) \<and> FALSE \<noteq> TRUE"
proof -
  have longer: "(2 :: nat) < 3"
    by simp
  from PrepareMessage_rejects [OF longer, of "[1, 2, 3]" "[7, 8]"] longer show ?thesis
    by blast
qed

subsection \<open>\<^verbatim>\<open>PrintMessage\<close>\<close>

text \<open>
  The layout, index by index: every byte is printed, with a line break behind it when
  its index is a multiple of 8.
\<close>

lemma print_from_nth:
  "print_from k xs =
     concat (map (\<lambda>j. print_byte (xs ! j) @ (if (k + j) mod 8 = 0 then newline else []))
               [0..<length xs])"
proof (induction xs arbitrary: k)
  case Nil
  show ?case by simp
next
  case (Cons b bs)
  have "[0..<Suc (length bs)] = 0 # [Suc 0..<Suc (length bs)]"
    by (rule upt_conv_Cons) simp
  then have idx: "[0..<Suc (length bs)] = 0 # map Suc [0..<length bs]"
    by (simp only: map_Suc_upt)
  show ?case
    by (simp only: length_Cons idx) (simp add: Cons.IH comp_def)
qed

lemma print_from_append:
  "print_from k (xs @ ys) = print_from k xs @ print_from (k + length xs) ys"
  by (induction xs arbitrary: k) simp_all

lemma print_from_period: "print_from (k + 8) xs = print_from k xs"
proof (induction xs arbitrary: k)
  case Nil
  show ?case by simp
next
  case (Cons b bs)
  from Cons.IH [of "Suc k"] show ?case by simp
qed

lemma print_from_one_line:
  "1 \<le> k \<Longrightarrow> k \<le> 8 \<Longrightarrow> k + length g \<le> 9 \<Longrightarrow>
   print_from k g = print_bytes g @ (if k + length g = 9 then newline else [])"
proof (induction g arbitrary: k)
  case Nil
  then show ?case by (simp add: print_bytes_def)
next
  case (Cons b bs)
  show ?case
  proof (cases "k = 8")
    case True
    with Cons.prems have "bs = []" by simp
    with True show ?thesis by (simp add: print_bytes_def)
  next
    case False
    with Cons.prems have "1 \<le> Suc k" "Suc k \<le> 8" "Suc k + length bs \<le> 9" "k mod 8 \<noteq> 0"
      by simp_all
    with Cons.IH [of "Suc k"] show ?thesis
      by (simp add: print_bytes_def)
  qed
qed

lemma print_from_groups:
  "print_from 1 xs =
     concat (map (\<lambda>g. print_bytes g @ (if length g = 8 then newline else [])) (groups_of 8 xs))"
proof (induction "8 :: nat" xs rule: groups_of.induct)
  case (1 xs)
  show ?case
  proof (cases "xs = []")
    case True
    then show ?thesis by (simp add: groups_of.simps)
  next
    case False
    have parts: "print_from 1 xs
                   = print_from 1 (take 8 xs) @ print_from (1 + length (take 8 xs)) (drop 8 xs)"
      using print_from_append [of 1 "take 8 xs" "drop 8 xs"] by simp
    have first: "print_from 1 (take 8 xs)
                   = print_bytes (take 8 xs) @ (if length (take 8 xs) = 8 then newline else [])"
      using print_from_one_line [of 1 "take 8 xs"] by simp
    have rest: "print_from (1 + length (take 8 xs)) (drop 8 xs) = print_from 1 (drop 8 xs)"
    proof (cases "8 \<le> length xs")
      case True
      then have "1 + length (take 8 xs) = 1 + 8" by simp
      then show ?thesis using print_from_period [of 1 "drop 8 xs"] by simp
    next
      case False
      then show ?thesis by simp
    qed
    from False "1.hyps" have ih: "print_from 1 (drop 8 xs) =
        concat (map (\<lambda>g. print_bytes g @ (if length g = 8 then newline else []))
                  (groups_of 8 (drop 8 xs)))"
      by simp
    from False have "groups_of 8 xs = take 8 xs # groups_of 8 (drop 8 xs)"
      by (subst groups_of.simps) simp
    with parts first rest ih show ?thesis by simp
  qed
qed

lemma layout_by_index:
  assumes "msg \<noteq> []"
  shows "PrintMessage_layout heading msg =
           heading @ newline
           @ concat (map (\<lambda>i. print_byte (msg ! i) @ (if i mod 8 = 0 then newline else []))
                       [0..<length msg])
           @ newline"
proof -
  from assms obtain b bs where msg: "msg = b # bs"
    by (cases msg) auto
  have "concat (map (\<lambda>i. print_byte (msg ! i) @ (if i mod 8 = 0 then newline else []))
                  [0..<length msg]) = print_from 0 msg"
    by (simp add: print_from_nth)
  also have "\<dots> = print_byte b @ newline @ print_from 1 bs"
    by (simp add: msg)
  also have "\<dots> = print_bytes (take 1 msg) @ newline
                    @ concat (map (\<lambda>g. print_bytes g @ (if length g = 8 then newline else []))
                                (groups_of 8 (drop 1 msg)))"
    using print_from_groups [of bs] by (simp add: msg print_bytes_def)
  finally show ?thesis
    by (simp add: PrintMessage_layout_def)
qed

text \<open>
  The loop prints the bytes from index \<open>i\<close> on, each with its line break, when the buffer
  holds \<open>len\<close> bytes and \<open>len\<close> is at most \<open>2^31\<close>: the counter wraps round only behind the
  last byte. When \<open>len\<close> is larger the loop ends where the counter wraps round, behind the
  byte at index \<^verbatim>\<open>INT_MAX\<close>.
\<close>

lemma wrapped_counter_ends_loop: "\<not> INT_MIN_as_size_t < INT_MAX + 1"
  by (simp add: INT_MIN_as_size_t_def INT_MAX_def)

lemma loop_prints:
  "len \<le> length msg \<Longrightarrow> len \<le> INT_MAX + 1 \<Longrightarrow>
   PrintMessage_loop msg len i out =
     Some (out @ concat (map (\<lambda>j. print_byte (msg ! j) @ (if j mod 8 = 0 then newline else []))
                           [i..<len]))"
proof (induction msg len i out rule: PrintMessage_loop.induct)
  case (1 msg len i out)
  show ?case
  proof (cases "i < len")
    case False
    then show ?thesis
      by (subst PrintMessage_loop.simps) simp
  next
    case True
    with "1.prems" have inside: "i < length msg"
      by simp
    show ?thesis
    proof (cases "i < INT_MAX")
      case True
      with \<open>i < len\<close> inside "1.IH" "1.prems" show ?thesis
        by (subst PrintMessage_loop.simps) (simp add: upt_conv_Cons Let_def)
    next
      case False
      with \<open>i < len\<close> "1.prems" have last: "len = Suc i" and "len = INT_MAX + 1"
        by simp_all
      with False inside wrapped_counter_ends_loop show ?thesis
        by (subst PrintMessage_loop.simps) (simp add: Let_def)
    qed
  qed
qed

lemma loop_truncates:
  "INT_MAX + 1 < len \<Longrightarrow> len \<le> INT_MIN_as_size_t \<Longrightarrow> INT_MAX + 1 \<le> length msg \<Longrightarrow>
   i \<le> INT_MAX \<Longrightarrow>
   PrintMessage_loop msg len i out =
     Some (out @ concat (map (\<lambda>j. print_byte (msg ! j) @ (if j mod 8 = 0 then newline else []))
                           [i..<INT_MAX + 1]))"
proof (induction msg len i out rule: PrintMessage_loop.induct)
  case (1 msg len i out)
  from "1.prems" have inside: "i < len" "i < length msg"
    by simp_all
  show ?case
  proof (cases "i < INT_MAX")
    case True
    with inside "1.IH" "1.prems" show ?thesis
      by (subst PrintMessage_loop.simps) (simp add: upt_conv_Cons Let_def)
  next
    case False
    with "1.prems" have "i = INT_MAX"
      by simp
    with inside "1.prems" show ?thesis
      by (subst PrintMessage_loop.simps) (simp add: Let_def)
  qed
qed

lemma PrintMessage_within_range:
  assumes "1 \<le> len" and "len \<le> INT_MAX + 1" and "length msg = len"
  shows "PrintMessage heading msg len =
           Some (heading @ newline
                 @ concat (map (\<lambda>i. print_byte (msg ! i) @ (if i mod 8 = 0 then newline else []))
                             [0..<len])
                 @ newline)"
    and "PrintMessage heading msg len = Some (PrintMessage_layout heading msg)"
proof -
  from assms show run: "PrintMessage heading msg len =
           Some (heading @ newline
                 @ concat (map (\<lambda>i. print_byte (msg ! i) @ (if i mod 8 = 0 then newline else []))
                             [0..<len])
                 @ newline)"
    by (simp add: PrintMessage_def loop_prints)
  from assms have "msg \<noteq> []"
    by auto
  from layout_by_index [OF this, of heading] assms run
  show "PrintMessage heading msg len = Some (PrintMessage_layout heading msg)"
    by simp
qed

lemma PrintMessage_truncates:
  assumes "INT_MAX + 1 < len" and "len \<le> INT_MIN_as_size_t" and "INT_MAX + 1 \<le> length msg"
  shows "PrintMessage heading msg len =
           Some (heading @ newline
                 @ concat (map (\<lambda>i. print_byte (msg ! i) @ (if i mod 8 = 0 then newline else []))
                             [0..<INT_MAX + 1])
                 @ newline)"
  using assms by (simp add: PrintMessage_def loop_truncates)

lemma print_byte_not_empty: "print_byte b \<noteq> []"
  by (simp add: print_byte_def)

lemma more_bytes_more_text:
  assumes "m < n"
  shows "heading @ newline
         @ concat (map (\<lambda>i. print_byte (msg ! i) @ (if i mod 8 = 0 then newline else [])) [0..<n])
         @ newline
       \<noteq> heading @ newline
         @ concat (map (\<lambda>i. print_byte (msg ! i) @ (if i mod 8 = 0 then newline else [])) [0..<m])
         @ newline"
proof -
  let ?item = "\<lambda>i. print_byte (msg ! i) @ (if i mod 8 = 0 then newline else [])"
  from assms have "[0..<n] = [0..<m] @ m # [Suc m..<n]"
    using upt_add_eq_append [of 0 m "n - m"] by (simp add: upt_conv_Cons)
  then have "concat (map ?item [0..<n])
               = concat (map ?item [0..<m]) @ ?item m @ concat (map ?item [Suc m..<n])"
    by simp
  moreover have "?item m @ concat (map ?item [Suc m..<n]) @ newline \<noteq> newline"
    using print_byte_not_empty [of "msg ! m"] by (simp add: newline_def append_eq_Cons_conv)
  ultimately show ?thesis
    by simp
qed

text \<open>
  Claim C10 says that \<^verbatim>\<open>PrintMessage\<close> prints all \<open>len\<close> bytes of every message of length
  \<open>len \<ge> 1\<close>, with a line break behind the byte at index 0 and behind every byte whose
  index is a multiple of 8. The program counts the bytes with an \<^verbatim>\<open>int\<close>. For the
  message of \<open>2^31 + 1\<close> bytes the counter wraps round behind the byte at index \<open>2^31 - 1\<close>
  and the loop ends: the text printed is that of the first \<open>2^31\<close> bytes, the last byte is
  missing, and the output is not the layout the claim describes.
\<close>

theorem PrintMessage_stops_at_INT_MAX:
  "length long_message = 2147483649
   \<and> PrintMessage ''Input Message'' long_message 2147483649 =
       Some (''Input Message'' @ newline
             @ concat (map (\<lambda>i. print_byte (long_message ! i)
                                  @ (if i mod 8 = 0 then newline else []))
                         [0..<2147483648])
             @ newline)
   \<and> PrintMessage ''Input Message'' long_message 2147483649 \<noteq>
       Some (''Input Message'' @ newline
             @ concat (map (\<lambda>i. print_byte (long_message ! i)
                                  @ (if i mod 8 = 0 then newline else []))
                         [0..<2147483649])
             @ newline)
   \<and> PrintMessage ''Input Message'' long_message 2147483649 \<noteq>
       Some (PrintMessage_layout ''Input Message'' long_message)"
proof -
  have size: "length long_message = 2147483649"
    by (simp only: long_message_def length_replicate)
  have wraps: "INT_MAX + 1 = 2147483648"
    by (simp add: INT_MAX_def)
  have "INT_MAX + 1 < 2147483649" and "2147483649 \<le> INT_MIN_as_size_t"
    and "INT_MAX + 1 \<le> length long_message"
    by (simp_all only: size) (simp_all add: INT_MAX_def INT_MIN_as_size_t_def)
  from PrintMessage_truncates [OF this, of "''Input Message''"]
  have printed: "PrintMessage ''Input Message'' long_message 2147483649 =
       Some (''Input Message'' @ newline
             @ concat (map (\<lambda>i. print_byte (long_message ! i)
                                  @ (if i mod 8 = 0 then newline else []))
                         [0..<2147483648])
             @ newline)"
    by (simp only: wraps)
  have "(2147483648 :: nat) < 2147483649"
    by simp
  from more_bytes_more_text [OF this, of "''Input Message''" long_message]
  have short: "PrintMessage ''Input Message'' long_message 2147483649 \<noteq>
       Some (''Input Message'' @ newline
             @ concat (map (\<lambda>i. print_byte (long_message ! i)
                                  @ (if i mod 8 = 0 then newline else []))
                         [0..<2147483649])
             @ newline)"
    by (simp only: printed option.inject)
  have "long_message \<noteq> []"
    using size by (auto simp only: length_0_conv [symmetric])
  from layout_by_index [OF this, of "''Input Message''"]
  have layout: "PrintMessage_layout ''Input Message'' long_message =
       ''Input Message'' @ newline
       @ concat (map (\<lambda>i. print_byte (long_message ! i)
                            @ (if i mod 8 = 0 then newline else []))
                   [0..<2147483649])
       @ newline"
    by (simp only: size)
  from short
  have "PrintMessage ''Input Message'' long_message 2147483649 \<noteq>
       Some (PrintMessage_layout ''Input Message'' long_message)"
    by (simp only: layout simp_thms)
  with size printed short show ?thesis
    by (simp only: simp_thms)
qed

subsection \<open>\<^verbatim>\<open>DoServiceDiscovery\<close>\<close>

text \<open>
  Claim C2. Whatever \<^verbatim>\<open>TPSC_ServiceDiscovery\<close> returns and however many services it
  reports, none included, \<^verbatim>\<open>DoServiceDiscovery\<close> copies the head of the array into
  \<^verbatim>\<open>*service_id\<close> and returns the status unchanged; neither the status nor the count is
  looked at. When the array is still the zeroed static storage, the identifier handed
  out is the zero identifier.
\<close>

theorem DoServiceDiscovery_takes_first:
  assumes "TPSC_ServiceDiscovery api w DoServiceDiscovery_selector 3 available
             = ((retval, found, available'), w')"
  shows "DoServiceDiscovery api w available = ((retval, available' 0, available'), w')
         \<and> (available' = services_available_initial \<longrightarrow>
              DoServiceDiscovery api w available
                = ((retval, zero_ServiceIdentifier, services_available_initial), w'))"
  using assms by (simp add: DoServiceDiscovery_def services_available_initial_def)

theorem DoServiceDiscovery_takes_first_witness:
  "TPSC_ServiceDiscovery (no_service 0) () DoServiceDiscovery_selector 3 services_available_initial
     = ((0, 0, services_available_initial), ())
   \<and> DoServiceDiscovery (no_service 0) () services_available_initial
     = ((0, zero_ServiceIdentifier, services_available_initial), ())"
proof -
  have found: "TPSC_ServiceDiscovery (no_service 0) () DoServiceDiscovery_selector 3
                 services_available_initial = ((0, 0, services_available_initial), ())"
    by (simp add: no_service_def)
  from DoServiceDiscovery_takes_first [OF found] found show ?thesis
    by blast
qed

subsection \<open>\<^verbatim>\<open>main\<close>\<close>

text \<open>
  \<^verbatim>\<open>PrepareMessage\<close> finds room for the 20 bytes of the message in a block that was
  allocated, and has no defined result on the null pointer. The run with the recording
  library prints what the run with the library itself prints and leaves the library in
  the same state.
\<close>

lemma buffer_holds_20: "20 \<le> TRANSACTION_BUFFER_SIZE"
  by (simp add: TRANSACTION_BUFFER_SIZE_def)

lemma length_INPUT_MSG: "length INPUT_MSG = 20"
  by (simp add: INPUT_MSG_def)

lemma block_at_head: "block_at (b0 # h) (Block 0) = b0"
  by (simp add: block_at_def)

lemma block_at_NULL: "block_at h NULL = []"
  by (simp add: block_at_def)

lemma prepare_allocated:
  "PrepareMessage INPUT_MSG 20 (map c [0..<TRANSACTION_BUFFER_SIZE]) TRANSACTION_BUFFER_SIZE =
     Some (TRUE, INPUT_MSG @ drop 20 (map c [0..<TRANSACTION_BUFFER_SIZE]))"
  using buffer_holds_20 by (simp add: PrepareMessage_def memcpy_def length_INPUT_MSG)

lemma prepare_NULL:
  "PrepareMessage INPUT_MSG 20 [] TRANSACTION_BUFFER_SIZE = None"
  using buffer_holds_20 by (simp add: PrepareMessage_def memcpy_def)

lemmas run_main =
  main_def calls_of_def recording_def DoServiceDiscovery_def Let_def malloc_def split_beta
  block_at_head block_at_NULL prepare_allocated prepare_NULL

lemma recording_is_transparent:
  "stdout (main (recording api) (w, log) allocation) = stdout (main api w allocation)
   \<and> fst (world (main (recording api) (w, log) allocation)) = world (main api w allocation)"
  by (cases "allocation 0"; cases "allocation 1") (simp_all add: run_main)

text \<open>
  Runs with the example library are evaluated with these facts. The run in which
  discovery reports success and no service goes on to open a session with the instance
  of the zero identifier.
\<close>

lemma input_dump:
  "PrintMessage ''Input Message'' INPUT_MSG 20 =
     Some (''Input Message'' @ newline
           @ ''ca, '' @ newline
           @ ''a1, 1, 70, 54, 68, 69, 73, 67, '' @ newline
           @ ''6f, 65, 73, 74, 6f, 65, 6c, 65, '' @ newline
           @ ''76, 65, 6e, '' @ newline)"
  by (simp add: PrintMessage_def PrintMessage_loop.simps INPUT_MSG_def INT_MAX_def
        print_byte_def printf_x.simps hex_digit_def newline_def Let_def)

lemmas run_example =
  run_main example_api_def no_service_def no_session_def no_transaction_buffer_def
  both_allocated_def no_send_buffer_def TPSC_SUCCESS_def services_available_initial_def

lemma example_calls:
  "calls_of example_api () both_allocated =
     [ServiceDiscovery_call DoServiceDiscovery_selector 3 0,
      OpenSession_call example_instance TPSC_LOGIN_PUBLIC NULL 0,
      InitializeTransaction_call (Block 0) TRANSACTION_BUFFER_SIZE 0
        \<lparr>message = Block 0, size_mb = 0\<rparr>,
      InitializeTransaction_call (Block 1) TRANSACTION_BUFFER_SIZE 0
        \<lparr>message = Block 1, size_mb = 0\<rparr>,
      ExecuteTransaction_call
        [INPUT_MSG @ drop 20 (map (\<lambda>i. 0) [0..<TRANSACTION_BUFFER_SIZE]),
         map (\<lambda>i. 0) [0..<TRANSACTION_BUFFER_SIZE]]
        \<lparr>message = Block 0, size_mb = 20\<rparr> \<lparr>message = Block 1, size_mb = 0\<rparr> 0]"
  by (simp add: run_example)

lemma zero_identifier_is_used:
  "take 2 (calls_of (no_service 0) () both_allocated) =
     [ServiceDiscovery_call DoServiceDiscovery_selector 3 0,
      OpenSession_call \<lparr>bytes = replicate 16 0\<rparr> TPSC_LOGIN_PUBLIC NULL 0]"
  by (simp add: run_example zero_ServiceIdentifier_def)

text \<open>
  Claim C6 says that a failing call of any of the four library functions makes the
  program print an error message. The program has an \<^verbatim>\<open>else\<close> branch with a message for
  \<^verbatim>\<open>DoServiceDiscovery\<close> and for \<^verbatim>\<open>TPSC_ExecuteTransaction\<close>, and none for
  \<^verbatim>\<open>TPSC_OpenSession\<close> and \<^verbatim>\<open>TPSC_InitializeTransaction\<close>. Here are three runs, each with
  the calls it makes: when the session does not open, and when the message buffer is not
  initialised, the program prints the input message and nothing more; when discovery
  fails it prints the message that it failed.
\<close>

theorem main_swallows_failures:
  "main (no_session 1) () both_allocated =
     \<lparr>stdout = Some (''Input Message'' @ newline
                     @ ''ca, '' @ newline
                     @ ''a1, 1, 70, 54, 68, 69, 73, 67, '' @ newline
                     @ ''6f, 65, 73, 74, 6f, 65, 6c, 65, '' @ newline
                     @ ''76, 65, 6e, '' @ newline),
      world = ()\<rparr>
   \<and> calls_of (no_session 1) () both_allocated =
       [ServiceDiscovery_call DoServiceDiscovery_selector 3 0,
        OpenSession_call example_instance TPSC_LOGIN_PUBLIC NULL 1]
   \<and> main (no_transaction_buffer 1) () both_allocated =
     \<lparr>stdout = Some (''Input Message'' @ newline
                     @ ''ca, '' @ newline
                     @ ''a1, 1, 70, 54, 68, 69, 73, 67, '' @ newline
                     @ ''6f, 65, 73, 74, 6f, 65, 6c, 65, '' @ newline
                     @ ''76, 65, 6e, '' @ newline),
      world = ()\<rparr>
   \<and> calls_of (no_transaction_buffer 1) () both_allocated =
       [ServiceDiscovery_call DoServiceDiscovery_selector 3 0,
        OpenSession_call example_instance TPSC_LOGIN_PUBLIC NULL 0,
        InitializeTransaction_call (Block 0) TRANSACTION_BUFFER_SIZE 1
          \<lparr>message = NULL, size_mb = 0\<rparr>]
   \<and> main (no_service 1) () both_allocated =
     \<lparr>stdout = Some (''Input Message'' @ newline
                     @ ''ca, '' @ newline
                     @ ''a1, 1, 70, 54, 68, 69, 73, 67, '' @ newline
                     @ ''6f, 65, 73, 74, 6f, 65, 6c, 65, '' @ newline
                     @ ''76, 65, 6e, '' @ newline
                     @ ''Service discovery failed''),
      world = ()\<rparr>
   \<and> calls_of (no_service 1) () both_allocated =
       [ServiceDiscovery_call DoServiceDiscovery_selector 3 1]"
  by (simp add: run_example input_dump printf_def)

text \<open>
  Claim C7. In every run of \<^verbatim>\<open>main\<close>, whatever the library and the allocations do, the
  calls the library receives are a beginning of the sequence service discovery, session
  open, initialisation of the sending and of the receiving message buffer, transaction;
  discovery is always called. Every call but the last of a run has returned
  \<^verbatim>\<open>TPSC_SUCCESS\<close>, so no stage is reached after one that failed. When the transaction is
  executed, discovery, session open and both initialisations have returned
  \<^verbatim>\<open>TPSC_SUCCESS\<close> before it, and the request has been prepared by then: the block given
  to the first initialisation starts with the message. A run stops behind a call that
  succeeded only behind the transaction, or where the send buffer was not allocated and
  the preparation of the request is undefined.
\<close>

theorem main_call_order:
  "prefix (map kind (calls_of api w allocation))
          [Discovery, Open_session, Initialize, Initialize, Execute]
   \<and> calls_of api w allocation \<noteq> []
   \<and> (\<forall>c \<in> set (butlast (calls_of api w allocation)). succeeded c)
   \<and> (Execute \<in> set (map kind (calls_of api w allocation)) \<longrightarrow>
        (\<exists>inst p1 mb1 p2 mb2 h sb rb r.
           calls_of api w allocation =
             [ServiceDiscovery_call DoServiceDiscovery_selector 3 TPSC_SUCCESS,
              OpenSession_call inst TPSC_LOGIN_PUBLIC NULL TPSC_SUCCESS,
              InitializeTransaction_call p1 TRANSACTION_BUFFER_SIZE TPSC_SUCCESS mb1,
              InitializeTransaction_call p2 TRANSACTION_BUFFER_SIZE TPSC_SUCCESS mb2,
              ExecuteTransaction_call h sb rb r]
           \<and> take 20 (block_at h p1) = INPUT_MSG))
   \<and> (succeeded (last (calls_of api w allocation)) \<longrightarrow>
        kind (last (calls_of api w allocation)) = Execute
        \<or> (allocation 0 = None \<and> stdout (main api w allocation) = None
            \<and> map kind (calls_of api w allocation)
                = [Discovery, Open_session, Initialize, Initialize]))"
  by (cases "allocation 0"; cases "allocation 1") (simp_all add: run_main length_INPUT_MSG)

theorem main_call_order_witness:
  "Execute \<in> set (map kind (calls_of example_api () both_allocated))
   \<and> map kind (calls_of example_api () both_allocated)
       = [Discovery, Open_session, Initialize, Initialize, Execute]
   \<and> list_all succeeded (butlast (calls_of example_api () both_allocated))
   \<and> take 20 (block_at [INPUT_MSG @ drop 20 (map (\<lambda>i. 0) [0..<TRANSACTION_BUFFER_SIZE]),
                          map (\<lambda>i. 0) [0..<TRANSACTION_BUFFER_SIZE]] (Block 0)) = INPUT_MSG
   \<and> map kind (calls_of (no_session 1) () both_allocated) = [Discovery, Open_session]
   \<and> prefix (map kind (calls_of (no_session 1) () both_allocated))
             [Discovery, Open_session, Initialize, Initialize, Execute]
   \<and> succeeded (last (calls_of example_api () no_send_buffer))
   \<and> no_send_buffer 0 = None
   \<and> stdout (main example_api () no_send_buffer) = None"
proof -
  let ?h = "[INPUT_MSG @ drop 20 (map (\<lambda>i. 0) [0..<TRANSACTION_BUFFER_SIZE]),
             map (\<lambda>i. 0) [0..<TRANSACTION_BUFFER_SIZE]]"
  have kinds: "map kind (calls_of example_api () both_allocated)
                 = [Discovery, Open_session, Initialize, Initialize, Execute]"
    by (simp add: example_calls)
  then have reached: "Execute \<in> set (map kind (calls_of example_api () both_allocated))"
    by simp
  from main_call_order [of example_api "()" both_allocated]
  have gated: "list_all succeeded (butlast (calls_of example_api () both_allocated))"
    by (simp only: list_all_iff) blast
  from main_call_order [of example_api "()" both_allocated] reached
  have prepared: "take 20 (block_at ?h (Block 0)) = INPUT_MSG"
    by (auto simp add: example_calls)
  from main_call_order [of "no_session 1" "()" both_allocated]
  have stopped: "prefix (map kind (calls_of (no_session 1) () both_allocated))
                   [Discovery, Open_session, Initialize, Initialize, Execute]"
    by blast
  have failed: "map kind (calls_of (no_session 1) () both_allocated) = [Discovery, Open_session]"
    by (simp add: run_example)
  have last_ok: "succeeded (last (calls_of example_api () no_send_buffer))"
    and not_executed: "kind (last (calls_of example_api () no_send_buffer)) \<noteq> Execute"
    by (simp_all add: run_example)
  with main_call_order [of example_api "()" no_send_buffer]
  have undefined: "no_send_buffer 0 = None \<and> stdout (main example_api () no_send_buffer) = None"
    by blast
  from kinds reached gated prepared stopped failed last_ok undefined show ?thesis
    by blast
qed

text \<open>
  Claim C8. \<^verbatim>\<open>INPUT_MSG\<close> has exactly 20 bytes and the send buffer 256. Whenever the
  library receives the call of \<^verbatim>\<open>TPSC_ExecuteTransaction\<close>, the block that the first
  \<^verbatim>\<open>TPSC_InitializeTransaction\<close> was given is the block that \<^verbatim>\<open>malloc\<close> gave as
  \<^verbatim>\<open>PrepareMessage\<close> leaves it, called with the message, its length and the size of the
  buffer and returning \<^verbatim>\<open>TRUE\<close>: it has 256 bytes of which the first 20 are the message.
  The sending message buffer is the one that initialisation returned with its size set
  to 20, the length of the message, and the receiving one is the one the second
  initialisation returned. The call is made in every run in which the send buffer was
  allocated and no call before it failed.
\<close>

theorem main_request:
  "length INPUT_MSG = 20
   \<and> TRANSACTION_BUFFER_SIZE = 256
   \<and> (\<forall>h sb rb r.
         ExecuteTransaction_call h sb rb r \<in> set (calls_of api w allocation) \<longrightarrow>
           (\<exists>p mb p' contents.
               calls_of api w allocation ! 2
                 = InitializeTransaction_call p TRANSACTION_BUFFER_SIZE TPSC_SUCCESS mb
             \<and> calls_of api w allocation ! 3
                 = InitializeTransaction_call p' TRANSACTION_BUFFER_SIZE TPSC_SUCCESS rb
             \<and> allocation 0 = Some contents
             \<and> PrepareMessage INPUT_MSG (length INPUT_MSG)
                   (map contents [0..<TRANSACTION_BUFFER_SIZE]) TRANSACTION_BUFFER_SIZE
                 = Some (TRUE, block_at h p)
             \<and> length (block_at h p) = TRANSACTION_BUFFER_SIZE
             \<and> take (length INPUT_MSG) (block_at h p) = INPUT_MSG
             \<and> sb = mb\<lparr>size_mb := 20\<rparr>
             \<and> size_mb sb = length INPUT_MSG))
   \<and> calls_of api w allocation \<noteq> []
   \<and> ((\<exists>contents. allocation 0 = Some contents)
        \<and> succeeded (last (calls_of api w allocation)) \<longrightarrow>
          kind (last (calls_of api w allocation)) = Execute)"
proof -
  have size: "TRANSACTION_BUFFER_SIZE = 256"
    by (simp add: TRANSACTION_BUFFER_SIZE_def)
  have request: "\<forall>h sb rb r.
         ExecuteTransaction_call h sb rb r \<in> set (calls_of api w allocation) \<longrightarrow>
           (\<exists>p mb p' contents.
               calls_of api w allocation ! 2
                 = InitializeTransaction_call p TRANSACTION_BUFFER_SIZE TPSC_SUCCESS mb
             \<and> calls_of api w allocation ! 3
                 = InitializeTransaction_call p' TRANSACTION_BUFFER_SIZE TPSC_SUCCESS rb
             \<and> allocation 0 = Some contents
             \<and> PrepareMessage INPUT_MSG (length INPUT_MSG)
                   (map contents [0..<TRANSACTION_BUFFER_SIZE]) TRANSACTION_BUFFER_SIZE
                 = Some (TRUE, block_at h p)
             \<and> length (block_at h p) = TRANSACTION_BUFFER_SIZE
             \<and> take (length INPUT_MSG) (block_at h p) = INPUT_MSG
             \<and> sb = mb\<lparr>size_mb := 20\<rparr>
             \<and> size_mb sb = length INPUT_MSG)"
    using buffer_holds_20
    by (cases "allocation 0"; cases "allocation 1") (simp_all add: run_main length_INPUT_MSG)
  have called: "calls_of api w allocation \<noteq> []"
    by (cases "allocation 0"; cases "allocation 1") (simp_all add: run_main)
  have executed: "(\<exists>contents. allocation 0 = Some contents)
        \<and> succeeded (last (calls_of api w allocation)) \<longrightarrow>
          kind (last (calls_of api w allocation)) = Execute"
    by (cases "allocation 0"; cases "allocation 1") (simp_all add: run_main)
  from length_INPUT_MSG size request called executed show ?thesis
    by blast
qed

theorem main_request_witness:
  "ExecuteTransaction_call
     [INPUT_MSG @ drop 20 (map (\<lambda>i. 0) [0..<TRANSACTION_BUFFER_SIZE]),
      map (\<lambda>i. 0) [0..<TRANSACTION_BUFFER_SIZE]]
     \<lparr>message = Block 0, size_mb = 20\<rparr> \<lparr>message = Block 1, size_mb = 0\<rparr> 0
     \<in> set (calls_of example_api () both_allocated)
   \<and> both_allocated 0 = Some (\<lambda>i. 0)
   \<and> succeeded (last (calls_of example_api () both_allocated))
   \<and> kind (last (calls_of example_api () both_allocated)) = Execute
   \<and> size_mb \<lparr>message = Block 0, size_mb = 20\<rparr> = length INPUT_MSG
   \<and> (\<exists>p. length (block_at
                    [INPUT_MSG @ drop 20 (map (\<lambda>i. 0) [0..<TRANSACTION_BUFFER_SIZE]),
                     map (\<lambda>i. 0) [0..<TRANSACTION_BUFFER_SIZE]] p) = 256
          \<and> take 20 (block_at
                    [INPUT_MSG @ drop 20 (map (\<lambda>i. 0) [0..<TRANSACTION_BUFFER_SIZE]),
                     map (\<lambda>i. 0) [0..<TRANSACTION_BUFFER_SIZE]] p) = INPUT_MSG)"
proof -
  let ?h = "[INPUT_MSG @ drop 20 (map (\<lambda>i. 0) [0..<TRANSACTION_BUFFER_SIZE]),
             map (\<lambda>i. 0) [0..<TRANSACTION_BUFFER_SIZE]]"
  let ?sb = "\<lparr>message = Block 0, size_mb = 20\<rparr>"
  have executed: "ExecuteTransaction_call ?h ?sb \<lparr>message = Block 1, size_mb = 0\<rparr> 0
                    \<in> set (calls_of example_api () both_allocated)"
    by (simp add: example_calls)
  have allocated: "both_allocated 0 = Some (\<lambda>i. 0)"
    by (simp add: both_allocated_def)
  have last_ok: "succeeded (last (calls_of example_api () both_allocated))"
    by (simp add: example_calls TPSC_SUCCESS_def)
  from main_request [of example_api "()" both_allocated] allocated last_ok
  have last_kind: "kind (last (calls_of example_api () both_allocated)) = Execute"
    by blast
  from main_request [of example_api "()" both_allocated] executed
  obtain p where "length (block_at ?h p) = TRANSACTION_BUFFER_SIZE"
    and "take (length INPUT_MSG) (block_at ?h p) = INPUT_MSG"
    and "size_mb ?sb = length INPUT_MSG"
    and "TRANSACTION_BUFFER_SIZE = 256" and "length INPUT_MSG = 20"
    by blast
  then have "size_mb ?sb = length INPUT_MSG
             \<and> (\<exists>p. length (block_at ?h p) = 256 \<and> take 20 (block_at ?h p) = INPUT_MSG)"
    by auto
  with executed allocated last_ok last_kind show ?thesis
    by blast
qed

text \<open>
  Claim C9 says that the call of \<^verbatim>\<open>PrepareMessage\<close> in \<^verbatim>\<open>main\<close> always returns \<^verbatim>\<open>TRUE\<close>.
  \<^verbatim>\<open>main\<close> does not test what \<^verbatim>\<open>malloc\<close> returns. In the run below the allocation of the
  send buffer fails and the library initialises both message buffers all the same:
  \<^verbatim>\<open>main\<close> goes on to \<^verbatim>\<open>PrepareMessage\<close> with the null pointer as destination, where 20 is
  not above 256, so that \<^verbatim>\<open>memcpy\<close> writes 20 bytes through the null pointer. The call has
  no defined result, \<^verbatim>\<open>TRUE\<close> or other, and no transaction is executed.
\<close>

theorem main_PrepareMessage_into_NULL:
  "calls_of example_api () no_send_buffer =
     [ServiceDiscovery_call DoServiceDiscovery_selector 3 TPSC_SUCCESS,
      OpenSession_call example_instance TPSC_LOGIN_PUBLIC NULL TPSC_SUCCESS,
      InitializeTransaction_call NULL TRANSACTION_BUFFER_SIZE TPSC_SUCCESS
        \<lparr>message = NULL, size_mb = 0\<rparr>,
      InitializeTransaction_call (Block 0) TRANSACTION_BUFFER_SIZE TPSC_SUCCESS
        \<lparr>message = Block 0, size_mb = 0\<rparr>]
   \<and> PrepareMessage INPUT_MSG 20
        (block_at [map (\<lambda>i. 0) [0..<TRANSACTION_BUFFER_SIZE]] NULL) TRANSACTION_BUFFER_SIZE
       = None
   \<and> main example_api () no_send_buffer = \<lparr>stdout = None, world = ()\<rparr>"
  by (simp add: run_example)

end
